theory Spec2Isabelle
  imports Main
begin

section \<open>Exceptions, the world and observable events\<close>

text \<open>
  The module \<^verbatim>\<open>brassicate/conda/env.py\<close> is glue code: it changes permission bits of
  ``canary'' files, asks the package manager which environments exist, runs it, and writes
  small scripts. Its functions are modelled as state transformers over a \<open>world\<close> that
  return an outcome (\<open>Inl\<close> a raised exception, \<open>Inr\<close> a value), the new world and the
  list of events (system calls, prints, subprocesses) they produced, in program order.
\<close>

datatype error =
    FileNotFoundError
  | FileExistsError
  | NotADirectoryError
  | IsADirectoryError
  | KeyError
  | TypeError
  | Exception string

text \<open>
  A \<open>Path\<close> is the list of its components; \<open>p / c\<close> for a single component \<open>c\<close> is
  \<open>p @ [c]\<close> and \<open>p.parent\<close> is \<open>butlast p\<close>. The empty path is the directory that
  all paths start from.
\<close>

type_synonym path = "string list"

datatype node = File nat string | Dir nat

text \<open>
  \<open>fs\<close> maps a path to what is there (a regular file with its mode and text, or a
  directory with its mode); \<open>cwd\<close> is what \<open>Path.resolve\<close> puts in front of a path;
  \<open>conda_info\<close> is what \<^verbatim>\<open>json.loads(<output of conda info --json>)["envs"]\<close>
  evaluates to in this world (an exception when the output is not such a document).
  Ownership and access checks of the operating system are not modelled.
\<close>

record world =
  fs :: "path \<rightharpoonup> node"
  cwd :: path
  conda_info :: "error + string list"

datatype event =
    OpenRead path
  | OpenWrite path
  | Print string
  | Touch path
  | Chmod path nat
  | Mkdir path
  | Run string

type_synonym 'a io = "world \<Rightarrow> (error + 'a) \<times> world \<times> event list"

definition io_return :: "'a \<Rightarrow> 'a io" where
  "io_return x = (\<lambda>w. (Inr x, w, []))"

definition io_raise :: "error \<Rightarrow> 'a io" where
  "io_raise e = (\<lambda>w. (Inl e, w, []))"

text \<open>Sequencing: an exception in the first statement skips the rest.\<close>

definition io_bind :: "'a io \<Rightarrow> ('a \<Rightarrow> 'b io) \<Rightarrow> 'b io" where
  "io_bind m f = (\<lambda>w.
     case m w of
       (Inl e, w1, t1) \<Rightarrow> (Inl e, w1, t1)
     | (Inr x, w1, t1) \<Rightarrow> (case f x w1 of (r, w2, t2) \<Rightarrow> (r, w2, t1 @ t2)))"

text \<open>
  \<^verbatim>\<open>try: m finally: fin\<close>. The \<open>finally\<close> block runs however \<open>m\<close> ended; when it
  raises, its exception replaces the outcome of \<open>m\<close>, otherwise the outcome of \<open>m\<close>
  stands.
\<close>

definition try_finally :: "'a io \<Rightarrow> unit io \<Rightarrow> 'a io" where
  "try_finally m fin = (\<lambda>w.
     case m w of (r, w1, t1) \<Rightarrow>
       (case fin w1 of
          (Inl e, w2, t2) \<Rightarrow> (Inl e, w2, t1 @ t2)
        | (Inr u, w2, t2) \<Rightarrow> (r, w2, t1 @ t2)))"

definition outcome :: "(error + 'a) \<times> world \<times> event list \<Rightarrow> error + 'a" where
  "outcome x = fst x"

definition world_of :: "(error + 'a) \<times> world \<times> event list \<Rightarrow> world" where
  "world_of x = fst (snd x)"

definition events :: "(error + 'a) \<times> world \<times> event list \<Rightarrow> event list" where
  "events x = snd (snd x)"

section \<open>The environment locator \<open>find_env\<close>\<close>

text \<open>Python's \<^verbatim>\<open>sub in s\<close> on strings: \<open>sub\<close> starts at some position of \<open>s\<close>.\<close>

fun startswith :: "string \<Rightarrow> string \<Rightarrow> bool" where
  "startswith s [] = True"
| "startswith [] (c # sub) = False"
| "startswith (d # s) (c # sub) = (d = c \<and> startswith s sub)"

fun py_in :: "string \<Rightarrow> string \<Rightarrow> bool" where
  "py_in sub [] = (sub = [])"
| "py_in sub (d # s) = (startswith (d # s) sub \<or> py_in sub s)"

text \<open>
  The \<^verbatim>\<open>for ... else\<close> loop of \<open>find_env\<close>: the first path that contains the name,
  \<open>None\<close> when the loop runs to its end.
\<close>

fun find_env_loop :: "string \<Rightarrow> string list \<Rightarrow> string option" where
  "find_env_loop env_name [] = None"
| "find_env_loop env_name (env_path # env_path_list) =
     (if py_in env_name env_path then Some env_path
      else find_env_loop env_name env_path_list)"

definition find_env :: "string \<Rightarrow> (string option) io" where
  "find_env env_name = (\<lambda>w.
     case conda_info w of
       Inl e \<Rightarrow> (Inl e, w, [Run ''conda info --json''])
     | Inr env_path_list \<Rightarrow>
         (Inr (find_env_loop env_name env_path_list), w, [Run ''conda info --json'']))"

text \<open>
  What the specification means by ``contains \<open>n\<close> as a substring'', stated without
  reference to the program.
\<close>

definition is_substring :: "string \<Rightarrow> string \<Rightarrow> bool" where
  "is_substring n s \<longleftrightarrow> (\<exists>a b. s = a @ n @ b)"

section \<open>File-system calls\<close>

definition S_IREAD :: nat where
  "S_IREAD = 256"

definition S_IWRITE :: nat where
  "S_IWRITE = 128"

text \<open>The mode \<^verbatim>\<open>0o666\<close> that \<open>touch\<close> and \<open>open\<close> ask for when they create a file.\<close>

definition new_file_mode :: nat where
  "new_file_mode = 438"

text \<open>The mode \<^verbatim>\<open>0o777\<close> that \<open>mkdir\<close> asks for.\<close>

definition new_dir_mode :: nat where
  "new_dir_mode = 511"

fun node_mode :: "node \<Rightarrow> nat" where
  "node_mode (File m c) = m"
| "node_mode (Dir m) = m"

fun set_mode :: "nat \<Rightarrow> node \<Rightarrow> node" where
  "set_mode m (File m0 c) = File m c"
| "set_mode m (Dir m0) = Dir m"

text \<open>The permission bits of what is at \<open>p\<close>, \<open>None\<close> when nothing is there.\<close>

definition mode_of :: "world \<Rightarrow> path \<Rightarrow> nat option" where
  "mode_of w p = (case fs w p of None \<Rightarrow> None | Some n \<Rightarrow> Some (node_mode n))"

text \<open>
  \<^verbatim>\<open>Path.touch(p)\<close>: what exists keeps mode and text; a missing file is created
  empty when its parent is a directory.
\<close>

definition touch :: "path \<Rightarrow> unit io" where
  "touch p = (\<lambda>w.
     case fs w p of
       Some n \<Rightarrow> (Inr (), w, [Touch p])
     | None \<Rightarrow>
         (case fs w (butlast p) of
            Some (Dir m) \<Rightarrow> (Inr (), w\<lparr>fs := (fs w)(p \<mapsto> File new_file_mode [])\<rparr>, [Touch p])
          | Some (File m c) \<Rightarrow> (Inl NotADirectoryError, w, [Touch p])
          | None \<Rightarrow> (Inl FileNotFoundError, w, [Touch p])))"

text \<open>\<^verbatim>\<open>os.chmod(p, m)\<close>: sets the mode of what is at \<open>p\<close>, raises when nothing is there.\<close>

definition chmod :: "path \<Rightarrow> nat \<Rightarrow> unit io" where
  "chmod p m = (\<lambda>w.
     case fs w p of
       Some n \<Rightarrow> (Inr (), w\<lparr>fs := (fs w)(p \<mapsto> set_mode m n)\<rparr>, [Chmod p m])
     | None \<Rightarrow> (Inl FileNotFoundError, w, [Chmod p m]))"

text \<open>
  \<^verbatim>\<open>p.mkdir(parents=True, exist_ok=True)\<close>: every missing directory on the way to \<open>p\<close>
  is created; a regular file on the way makes the call fail and nothing is created.
  The call returns \<open>None\<close>.
\<close>

datatype pyobj = PyNone | PyPath path

fun make_dirs :: "path \<Rightarrow> string list \<Rightarrow> (path \<rightharpoonup> node) \<Rightarrow> error + (path \<rightharpoonup> node)" where
  "make_dirs d [] f = Inr f"
| "make_dirs d (c # cs) f =
     (case f (d @ [c]) of
        Some (File m t) \<Rightarrow> Inl (if cs = [] then FileExistsError else NotADirectoryError)
      | Some (Dir m) \<Rightarrow> make_dirs (d @ [c]) cs f
      | None \<Rightarrow> make_dirs (d @ [c]) cs (f(d @ [c] \<mapsto> Dir new_dir_mode)))"

definition mkdir_parents :: "path \<Rightarrow> pyobj io" where
  "mkdir_parents p = (\<lambda>w.
     case make_dirs [] p (fs w) of
       Inl e \<Rightarrow> (Inl e, w, [Mkdir p])
     | Inr f \<Rightarrow> (Inr PyNone, w\<lparr>fs := f\<rparr>, [Mkdir p]))"

text \<open>\<^verbatim>\<open>with open(p) as f\<close> followed by reading all of \<open>f\<close>.\<close>

definition read_text :: "path \<Rightarrow> string io" where
  "read_text p = (\<lambda>w.
     case fs w p of
       Some (File m c) \<Rightarrow> (Inr c, w, [OpenRead p])
     | Some (Dir m) \<Rightarrow> (Inl IsADirectoryError, w, [OpenRead p])
     | None \<Rightarrow> (Inl FileNotFoundError, w, [OpenRead p]))"

text \<open>
  \<^verbatim>\<open>with open(p, "w+") as f: f.writelines(lines)\<close>: the file is created or truncated
  and the strings of \<open>lines\<close> are written one after the other.
\<close>

definition write_lines :: "path \<Rightarrow> string list \<Rightarrow> unit io" where
  "write_lines p lines = (\<lambda>w.
     case fs w p of
       Some (File m c) \<Rightarrow> (Inr (), w\<lparr>fs := (fs w)(p \<mapsto> File m (concat lines))\<rparr>, [OpenWrite p])
     | Some (Dir m) \<Rightarrow> (Inl IsADirectoryError, w, [OpenWrite p])
     | None \<Rightarrow>
         (case fs w (butlast p) of
            Some (Dir m) \<Rightarrow>
              (Inr (), w\<lparr>fs := (fs w)(p \<mapsto> File new_file_mode (concat lines))\<rparr>, [OpenWrite p])
          | Some (File m c) \<Rightarrow> (Inl NotADirectoryError, w, [OpenWrite p])
          | None \<Rightarrow> (Inl FileNotFoundError, w, [OpenWrite p])))"

definition py_print :: "string \<Rightarrow> unit io" where
  "py_print msg = (\<lambda>w. (Inr (), w, [Print msg]))"

text \<open>
  \<^verbatim>\<open>subprocess.run(cmd)\<close> for the commands that change environments. What the package
  manager does to the world, and whether starting it raises, is the parameter \<open>conda\<close>.
\<close>

type_synonym tool = "string \<Rightarrow> world \<Rightarrow> (error + unit) \<times> world"

definition subprocess_run :: "tool \<Rightarrow> string \<Rightarrow> unit io" where
  "subprocess_run conda cmd = (\<lambda>w. case conda cmd w of (r, w1) \<Rightarrow> (r, w1, [Run cmd]))"

definition io_lift :: "error + 'a \<Rightarrow> 'a io" where
  "io_lift r = (\<lambda>w. (r, w, []))"

section \<open>The scope guard \<open>writable\<close>\<close>

definition base_canaryfile :: "path \<Rightarrow> path" where
  "base_canaryfile conda_prefix = conda_prefix @ [''conda-meta'', ''history'']"

definition env_canaryfile :: "path \<Rightarrow> string \<Rightarrow> path" where
  "env_canaryfile conda_prefix env_name =
     conda_prefix @ [''envs'', env_name, ''conda-meta'', ''history'']"

text \<open>The statements of the \<^verbatim>\<open>try\<close> block before \<^verbatim>\<open>yield\<close>.\<close>

definition writable_enter :: "string \<Rightarrow> path \<Rightarrow> unit io" where
  "writable_enter env_name conda_prefix =
     io_bind (touch (base_canaryfile conda_prefix)) (\<lambda>u.
     io_bind (chmod (base_canaryfile conda_prefix) S_IWRITE) (\<lambda>u.
     if \<not> env_name = ''base'' then
       io_bind (mkdir_parents (butlast (env_canaryfile conda_prefix env_name))) (\<lambda>d.
       io_bind (touch (env_canaryfile conda_prefix env_name)) (\<lambda>u.
       chmod (env_canaryfile conda_prefix env_name) S_IWRITE))
     else io_return ()))"

text \<open>The \<^verbatim>\<open>finally\<close> block.\<close>

definition writable_exit :: "string \<Rightarrow> bool \<Rightarrow> path \<Rightarrow> unit io" where
  "writable_exit env_name enforce_readonly conda_prefix =
     (if enforce_readonly then
        io_bind (chmod (base_canaryfile conda_prefix) S_IREAD) (\<lambda>u.
        if \<not> env_name = ''base'' then chmod (env_canaryfile conda_prefix env_name) S_IREAD
        else io_return ())
      else io_return ())"

text \<open>
  \<^verbatim>\<open>with writable(env_name, enforce_readonly, conda_prefix): body\<close>. The generator
  runs to \<^verbatim>\<open>yield\<close>, the body runs there, and an exception of the body is thrown
  into the generator at \<^verbatim>\<open>yield\<close>: the whole is
  \<^verbatim>\<open>try: enter; body finally: exit\<close>.
\<close>

definition writable :: "string \<Rightarrow> bool \<Rightarrow> path \<Rightarrow> unit io \<Rightarrow> unit io" where
  "writable env_name enforce_readonly conda_prefix body =
     try_finally
       (io_bind (writable_enter env_name conda_prefix) (\<lambda>u. body))
       (writable_exit env_name enforce_readonly conda_prefix)"

text \<open>
  What a body must leave of a canary file for the guard to do its work: the file is still
  there when the body ends and, when the guard will not reset the mode on exit, its mode is
  the one it had when the body started.
\<close>

definition canary_kept :: "bool \<Rightarrow> world \<Rightarrow> world \<Rightarrow> path \<Rightarrow> bool" where
  "canary_kept enforce_readonly w1 w2 p =
     (if enforce_readonly then mode_of w2 p \<noteq> None else mode_of w2 p = mode_of w1 p)"

section \<open>Manifest sync \<open>update_from_yml\<close>\<close>

text \<open>
  The document that \<^verbatim>\<open>yaml.load\<close> returns: a mapping whose \<open>name\<close>, when present,
  is a string and whose \<open>dependencies\<close>, when present, is a list of strings. Documents
  of another shape are outside this model. The parser itself is the parameter
  \<open>yaml_load\<close>.
\<close>

record manifest =
  name :: "string option"
  dependencies :: "string list option"

text \<open>\<^verbatim>\<open>environment_yml["name"]\<close>.\<close>

definition getitem_name :: "manifest \<Rightarrow> error + string" where
  "getitem_name environment_yml =
     (case name environment_yml of None \<Rightarrow> Inl KeyError | Some n \<Rightarrow> Inr n)"

definition path_str :: "path \<Rightarrow> string" where
  "path_str p = concat (map (\<lambda>c. ''/'' @ c) p)"

definition resolve :: "world \<Rightarrow> path \<Rightarrow> path" where
  "resolve w p = cwd w @ p"

definition found_message :: "world \<Rightarrow> string \<Rightarrow> path \<Rightarrow> string" where
  "found_message w env_name yml_file =
     ''Found environment file for '' @ env_name @ '' at '' @ path_str (resolve w yml_file)"

text \<open>The body of the \<^verbatim>\<open>with\<close> statement: update an environment that was found, create one that was not.\<close>

definition update_or_create :: "tool \<Rightarrow> string \<Rightarrow> string option \<Rightarrow> unit io" where
  "update_or_create conda env_name env_path =
     (if env_path \<noteq> None then
        subprocess_run conda ''conda env update --file environment.yml --prune''
      else
        io_bind (py_print (''Environment '' @ env_name
                           @ '' doesn't exist, so create it...'')) (\<lambda>u.
        subprocess_run conda ''conda env create --file environment.yml''))"

definition update_from_yml ::
    "(string \<Rightarrow> error + manifest) \<Rightarrow> tool \<Rightarrow> path \<Rightarrow> bool \<Rightarrow> path \<Rightarrow> unit io" where
  "update_from_yml yaml_load conda yml_file enforce_readonly conda_prefix =
     io_bind (read_text yml_file) (\<lambda>f.
     io_bind (io_lift (yaml_load f)) (\<lambda>environment_yml.
     io_bind (io_lift (getitem_name environment_yml)) (\<lambda>env_name.
     io_bind (\<lambda>w. py_print (found_message w env_name yml_file) w) (\<lambda>u.
     io_bind (find_env env_name) (\<lambda>env_path.
     writable env_name enforce_readonly conda_prefix
       (update_or_create conda env_name env_path))))))"

section \<open>The script generator \<open>set_env_vars\<close>\<close>

text \<open>\<^verbatim>\<open>buf += s\<close> for a list \<open>buf\<close> and a string \<open>s\<close> appends the characters of \<open>s\<close> one by one.\<close>

definition list_iadd_str :: "string list \<Rightarrow> string \<Rightarrow> string list" where
  "list_iadd_str buf s = buf @ map (\<lambda>c. [c]) s"

fun set_env_vars_loop ::
    "(string \<times> string) list \<Rightarrow> string list \<times> string list \<times> string list \<times> string list
       \<Rightarrow> string list \<times> string list \<times> string list \<times> string list" where
  "set_env_vars_loop [] bufs = bufs"
| "set_env_vars_loop ((var, val) # items) (activate_sh, activate_bat, deactivate_sh, deactivate_bat) =
     set_env_vars_loop items
       (list_iadd_str activate_sh (''export '' @ var @ ''='' @ val @ [CHR 0x0A]),
        list_iadd_str activate_bat (''set '' @ var @ ''='' @ val @ [CHR 0x0A]),
        list_iadd_str deactivate_sh (''unset '' @ var @ [CHR 0x0A]),
        list_iadd_str deactivate_bat (''set '' @ var @ ''='' @ [CHR 0x0A]))"

text \<open>\<^verbatim>\<open>d / s\<close>: defined for a path, a \<open>TypeError\<close> for \<open>None\<close>.\<close>

definition py_truediv :: "pyobj \<Rightarrow> string \<Rightarrow> error + path" where
  "py_truediv d s = (case d of PyNone \<Rightarrow> Inl TypeError | PyPath p \<Rightarrow> Inr (p @ [s]))"

definition set_env_vars :: "(string \<times> string) list \<Rightarrow> path \<Rightarrow> unit io" where
  "set_env_vars env_vars env_path =
     (case set_env_vars_loop env_vars
             ([''#!/bin/sh'' @ [CHR 0x0A]], [''''], [''#!/bin/sh'' @ [CHR 0x0A]], ['''']) of
        (activate_sh, activate_bat, deactivate_sh, deactivate_bat) \<Rightarrow>
     io_bind (mkdir_parents (env_path @ [''etc'', ''conda'', ''activate.d''])) (\<lambda>activate_dir.
     io_bind (io_lift (py_truediv activate_dir ''env_vars.sh'')) (\<lambda>p.
     io_bind (write_lines p activate_sh) (\<lambda>u.
     io_bind (io_lift (py_truediv activate_dir ''env_vars.bat'')) (\<lambda>p.
     io_bind (write_lines p activate_bat) (\<lambda>u.
     io_bind (mkdir_parents (env_path @ [''etc'', ''conda'', ''deactivate.d''])) (\<lambda>deactivate_dir.
     io_bind (io_lift (py_truediv deactivate_dir ''env_vars.sh'')) (\<lambda>p.
     io_bind (write_lines p deactivate_sh) (\<lambda>u.
     io_bind (io_lift (py_truediv deactivate_dir ''env_vars.bat'')) (\<lambda>p.
     write_lines p deactivate_bat))))))))))"

section \<open>Assumptions about the surroundings\<close>




section \<open>Reading event lists\<close>

text \<open>The command lines handed to \<^verbatim>\<open>subprocess.run\<close>, in order.\<close>

fun run_cmds :: "event list \<Rightarrow> string list" where
  "run_cmds [] = []"
| "run_cmds (Run c # t) = c # run_cmds t"
| "run_cmds (e # t) = run_cmds t"

text \<open>Events that can change the file system or the installed environments.\<close>

fun mutating :: "event \<Rightarrow> bool" where
  "mutating (OpenRead p) = False"
| "mutating (Print s) = False"
| "mutating (OpenWrite p) = True"
| "mutating (Touch p) = True"
| "mutating (Chmod p m) = True"
| "mutating (Mkdir p) = True"
| "mutating (Run c) = True"

section \<open>A small concrete installation\<close>

text \<open>
  A root prefix \<^verbatim>\<open>/opt/conda\<close> with its \<^verbatim>\<open>conda-meta\<close> directory, a manifest
  \<^verbatim>\<open>environment.yml\<close> and three more in the working directory, and a package manager
  that knows only the base environment. It is used to run the functions on concrete inputs.
\<close>

definition demo_prefix :: path where
  "demo_prefix = [''opt'', ''conda'']"

definition demo_world :: world where
  "demo_world =
     \<lparr>fs = [[] \<mapsto> Dir 493,
            [''opt''] \<mapsto> Dir 493,
            [''opt'', ''conda''] \<mapsto> Dir 493,
            [''opt'', ''conda'', ''conda-meta''] \<mapsto> Dir 493,
            [''environment.yml''] \<mapsto> File 420 ''{name: proj, dependencies: [numpy]}'',
            [''empty.yml''] \<mapsto> File 420 ''{name: proj, dependencies: []}'',
            [''noname.yml''] \<mapsto> File 420 ''{dependencies: [numpy]}'',
            [''dev.yml''] \<mapsto> File 420 ''{name: dev, dependencies: [pytest]}''],
      cwd = [''home'', ''work''],
      conda_info = Inr [''/opt/conda'']\<rparr>"

text \<open>A parser that knows the manifests of \<open>demo_world\<close>.\<close>

definition demo_yaml_load :: "string \<Rightarrow> error + manifest" where
  "demo_yaml_load text =
     (if text = ''{name: proj, dependencies: [numpy]}''
        then Inr \<lparr>name = Some ''proj'', dependencies = Some [''numpy'']\<rparr>
      else if text = ''{name: proj, dependencies: []}''
        then Inr \<lparr>name = Some ''proj'', dependencies = Some []\<rparr>
      else if text = ''{dependencies: [numpy]}''
        then Inr \<lparr>name = None, dependencies = Some [''numpy'']\<rparr>
      else if text = ''{name: dev, dependencies: [pytest]}''
        then Inr \<lparr>name = Some ''dev'', dependencies = Some [''pytest'']\<rparr>
      else Inl (Exception ''cannot parse''))"

text \<open>
  A package manager that never fails to start, registers \<^verbatim>\<open>/opt/conda/envs/proj\<close> on
  \<^verbatim>\<open>env create\<close> and leaves the file system alone.
\<close>

definition demo_conda :: tool where
  "demo_conda cmd w =
     (if cmd = ''conda env create --file environment.yml'' then
        (case conda_info w of
           Inr envs \<Rightarrow> (Inr (), w\<lparr>conda_info := Inr (envs @ [''/opt/conda/envs/proj''])\<rparr>)
         | Inl e \<Rightarrow> (Inr (), w))
      else (Inr (), w))"

section \<open>Properties of the environment locator\<close>

lemma startswith_iff: "startswith s sub \<longleftrightarrow> (\<exists>b. s = sub @ b)"
  by (induction s sub rule: startswith.induct) auto

lemma py_in_iff_is_substring: "py_in sub s \<longleftrightarrow> is_substring sub s"
proof (induction s)
  case Nil
  then show ?case by (auto simp: is_substring_def)
next
  case (Cons d s)
  show ?case
  proof
    assume "py_in sub (d # s)"
    then consider "startswith (d # s) sub" | "py_in sub s" by auto
    then show "is_substring sub (d # s)"
    proof cases
      case 1
      then obtain b where "d # s = sub @ b" by (auto simp: startswith_iff)
      then have "d # s = [] @ sub @ b" by simp
      then show ?thesis unfolding is_substring_def by blast
    next
      case 2
      then obtain a b where "s = a @ sub @ b" using Cons by (auto simp: is_substring_def)
      then have "d # s = (d # a) @ sub @ b" by simp
      then show ?thesis unfolding is_substring_def by blast
    qed
  next
    assume "is_substring sub (d # s)"
    then obtain a b where ab: "d # s = a @ sub @ b" by (auto simp: is_substring_def)
    show "py_in sub (d # s)"
    proof (cases a)
      case Nil
      then have "startswith (d # s) sub" using ab by (auto simp: startswith_iff)
      then show ?thesis by simp
    next
      case (Cons x a')
      then have "s = a' @ sub @ b" using ab by simp
      then have "is_substring sub s" unfolding is_substring_def by blast
      then show ?thesis using Cons.IH by simp
    qed
  qed
qed

lemma find_env_loop_None: "find_env_loop n ps = None \<longleftrightarrow> (\<forall>q\<in>set ps. \<not> py_in n q)"
  by (induction ps) auto

lemma find_env_loop_Some:
  "find_env_loop n ps = Some p \<longleftrightarrow>
     (\<exists>pre post. ps = pre @ p # post \<and> py_in n p \<and> (\<forall>q\<in>set pre. \<not> py_in n q))"
proof (induction ps)
  case Nil
  then show ?case by simp
next
  case (Cons e ps)
  show ?case
  proof (cases "py_in n e")
    case True
    have "(\<exists>pre post. e # ps = pre @ p # post \<and> py_in n p \<and> (\<forall>q\<in>set pre. \<not> py_in n q)) \<longleftrightarrow> e = p"
    proof
      assume "\<exists>pre post. e # ps = pre @ p # post \<and> py_in n p \<and> (\<forall>q\<in>set pre. \<not> py_in n q)"
      then obtain pre post where h: "e # ps = pre @ p # post" "\<forall>q\<in>set pre. \<not> py_in n q" by blast
      show "e = p"
      proof (cases pre)
        case Nil then show ?thesis using h by simp
      next
        case (Cons x xs)
        then have "x = e" using h by simp
        then show ?thesis using h True Cons by simp
      qed
    next
      assume "e = p"
      then have "e # ps = [] @ p # ps \<and> py_in n p \<and> (\<forall>q\<in>set []. \<not> py_in n q)" using True by simp
      then show "\<exists>pre post. e # ps = pre @ p # post \<and> py_in n p \<and> (\<forall>q\<in>set pre. \<not> py_in n q)" by blast
    qed
    then show ?thesis using True by simp
  next
    case False
    have "(\<exists>pre post. e # ps = pre @ p # post \<and> py_in n p \<and> (\<forall>q\<in>set pre. \<not> py_in n q)) \<longleftrightarrow>
          (\<exists>pre post. ps = pre @ p # post \<and> py_in n p \<and> (\<forall>q\<in>set pre. \<not> py_in n q))"
    proof
      assume "\<exists>pre post. e # ps = pre @ p # post \<and> py_in n p \<and> (\<forall>q\<in>set pre. \<not> py_in n q)"
      then obtain pre post where h: "e # ps = pre @ p # post" "py_in n p" "\<forall>q\<in>set pre. \<not> py_in n q" by blast
      show "\<exists>pre post. ps = pre @ p # post \<and> py_in n p \<and> (\<forall>q\<in>set pre. \<not> py_in n q)"
      proof (cases pre)
        case Nil then show ?thesis using h False by simp
      next
        case (Cons x xs)
        then have "ps = xs @ p # post \<and> py_in n p \<and> (\<forall>q\<in>set xs. \<not> py_in n q)" using h by simp
        then show ?thesis by blast
      qed
    next
      assume "\<exists>pre post. ps = pre @ p # post \<and> py_in n p \<and> (\<forall>q\<in>set pre. \<not> py_in n q)"
      then obtain pre post where h: "ps = pre @ p # post" "py_in n p" "\<forall>q\<in>set pre. \<not> py_in n q" by blast
      then have "e # ps = (e # pre) @ p # post \<and> py_in n p \<and> (\<forall>q\<in>set (e # pre). \<not> py_in n q)"
        using False by simp
      then show "\<exists>pre post. e # ps = pre @ p # post \<and> py_in n p \<and> (\<forall>q\<in>set pre. \<not> py_in n q)" by blast
    qed
    then show ?thesis using False Cons.IH by simp
  qed
qed

text \<open>
  Claim C3. When the package-manager query yields the list \<open>ps\<close>, \<open>find_env n\<close> returns
  a path exactly when some entry of \<open>ps\<close> contains \<open>n\<close> as a substring; the path it
  returns is the first such entry in list order; otherwise it returns \<open>None\<close>.
\<close>

theorem find_env_first_containing:
  assumes "conda_info w = Inr ps"
  shows "\<exists>r. outcome (find_env n w) = Inr r \<and>
           ((\<exists>p. r = Some p) \<longleftrightarrow> (\<exists>e\<in>set ps. is_substring n e)) \<and>
           (\<forall>p. r = Some p \<longrightarrow>
              (\<exists>pre post. ps = pre @ p # post \<and> is_substring n p \<and>
                           (\<forall>q\<in>set pre. \<not> is_substring n q))) \<and>
           (r = None \<longleftrightarrow> (\<forall>e\<in>set ps. \<not> is_substring n e))"
proof -
  let ?r = "find_env_loop n ps"
  have o: "outcome (find_env n w) = Inr ?r"
    using assms by (simp add: find_env_def outcome_def)
  have n: "?r = None \<longleftrightarrow> (\<forall>e\<in>set ps. \<not> is_substring n e)"
    by (simp add: find_env_loop_None py_in_iff_is_substring)
  have s: "\<forall>p. ?r = Some p \<longrightarrow>
              (\<exists>pre post. ps = pre @ p # post \<and> is_substring n p \<and>
                           (\<forall>q\<in>set pre. \<not> is_substring n q))"
    using find_env_loop_Some [of n ps] by (simp add: py_in_iff_is_substring)
  have e: "(\<exists>p. ?r = Some p) \<longleftrightarrow> (\<exists>e\<in>set ps. is_substring n e)"
  proof -
    have "(\<exists>p. ?r = Some p) \<longleftrightarrow> ?r \<noteq> None" by simp
    then show ?thesis using n by simp
  qed
  from o e s n show ?thesis by (intro exI [of _ ?r] conjI)
qed



theorem find_env_first_containing_witness:
  "conda_info demo_world = Inr [''/opt/conda''] \<and>
   outcome (find_env ''conda'' demo_world) = Inr (Some ''/opt/conda'') \<and>
   outcome (find_env ''proj'' demo_world) = Inr None"
proof -
  have h: "conda_info demo_world = Inr [''/opt/conda'']" by (simp add: demo_world_def)
  show ?thesis
    using h find_env_first_containing [OF h, of "''conda''"]
    by (simp add: find_env_def outcome_def)
qed

text \<open>
  Claim C10. With the empty string as name, \<open>find_env\<close> returns the first path of every
  non-empty list, and \<open>None\<close> only for the empty list.
\<close>

theorem find_env_empty_name:
  assumes "conda_info w = Inr ps"
  shows "outcome (find_env [] w) = Inr (case ps of [] \<Rightarrow> None | p # rest \<Rightarrow> Some p) \<and>
         (outcome (find_env [] w) = Inr None \<longleftrightarrow> ps = [])"
proof -
  have "find_env_loop [] ps = (case ps of [] \<Rightarrow> None | p # rest \<Rightarrow> Some p)"
  proof (cases ps)
    case Nil
    then show ?thesis by simp
  next
    case (Cons p rest)
    have "py_in [] p" by (cases p) simp_all
    then show ?thesis using Cons by simp
  qed
  then show ?thesis using assms
    by (simp add: find_env_def outcome_def split: list.splits)
qed

theorem find_env_empty_name_witness:
  "conda_info demo_world = Inr [''/opt/conda''] \<and>
   outcome (find_env [] demo_world) = Inr (Some ''/opt/conda'')"
proof -
  have h: "conda_info demo_world = Inr [''/opt/conda'']" by (simp add: demo_world_def)
  show ?thesis using h find_env_empty_name [OF h] by simp
qed

section \<open>Properties of the scope guard\<close>

lemma make_dirs_keeps:
  "make_dirs d cs f = Inr g \<Longrightarrow> f p = Some x \<Longrightarrow> g p = Some x"
proof (induction cs arbitrary: d f)
  case Nil
  then show ?case by simp
next
  case (Cons c cs)
  show ?case
  proof (cases "f (d @ [c])")
    case None
    then have "make_dirs (d @ [c]) cs (f(d @ [c] \<mapsto> Dir new_dir_mode)) = Inr g"
      using Cons.prems(1) by simp
    moreover have "(f(d @ [c] \<mapsto> Dir new_dir_mode)) p = Some x"
      using None Cons.prems(2) by auto
    ultimately show ?thesis by (rule Cons.IH)
  next
    case (Some n)
    then show ?thesis using Cons by (cases n) (auto split: if_splits)
  qed
qed

lemma io_bind_elim:
  assumes "io_bind m f w = (r, w', t)"
  shows "(\<exists>e. m w = (Inl e, w', t) \<and> r = Inl e) \<or>
         (\<exists>x w1 t1 t2. m w = (Inr x, w1, t1) \<and> f x w1 = (r, w', t2) \<and> t = t1 @ t2)"
proof (cases "m w")
  case (fields a w1 t1)
  show ?thesis
  proof (cases a)
    case (Inl e)
    then show ?thesis using assms fields by (simp add: io_bind_def)
  next
    case (Inr x)
    then show ?thesis using assms fields
      by (cases "f x w1") (simp add: io_bind_def)
  qed
qed

lemma io_bind_Inr:
  assumes "io_bind m f w = (Inr y, w', t)"
  shows "\<exists>x w1 t1 t2. m w = (Inr x, w1, t1) \<and> f x w1 = (Inr y, w', t2) \<and> t = t1 @ t2"
  using io_bind_elim [OF assms] by auto

lemma touch_Inr:
  assumes "touch p w = (Inr u, w', t)"
  shows "fs w' p \<noteq> None \<and> (\<forall>q. fs w q \<noteq> None \<longrightarrow> fs w' q = fs w q) \<and> (\<forall>q. q \<noteq> p \<longrightarrow> fs w' q = fs w q)"
  using assms by (auto simp: touch_def split: option.splits node.splits)

lemma chmod_Inr:
  assumes "chmod p m w = (Inr u, w', t)"
  shows "mode_of w' p = Some m \<and> (\<forall>q. q \<noteq> p \<longrightarrow> fs w' q = fs w q) \<and> t = [Chmod p m]"
proof (cases "fs w p")
  case None
  then show ?thesis using assms by (simp add: chmod_def)
next
  case (Some n)
  then show ?thesis using assms by (cases n) (auto simp: chmod_def mode_of_def)
qed

lemma mkdir_parents_Inr:
  assumes "mkdir_parents p w = (Inr d, w', t)"
  shows "\<forall>q x. fs w q = Some x \<longrightarrow> fs w' q = Some x"
  using assms make_dirs_keeps
  by (fastforce simp: mkdir_parents_def split: sum.splits)

lemma canary_paths_differ: "env_canaryfile prefix n \<noteq> base_canaryfile prefix"
  by (simp add: env_canaryfile_def base_canaryfile_def)

lemma enter_modes:
  assumes "writable_enter n prefix w = (Inr (), w1, t1)"
  shows "mode_of w1 (base_canaryfile prefix) = Some S_IWRITE"
    and "n \<noteq> ''base'' \<Longrightarrow> mode_of w1 (env_canaryfile prefix n) = Some S_IWRITE"
proof -
  let ?b = "base_canaryfile prefix" and ?e = "env_canaryfile prefix n"
  from assms have "io_bind (touch ?b) (\<lambda>u.
        io_bind (chmod ?b S_IWRITE) (\<lambda>u.
          if \<not> n = ''base'' then
            io_bind (mkdir_parents (butlast ?e)) (\<lambda>d.
            io_bind (touch ?e) (\<lambda>u. chmod ?e S_IWRITE))
          else io_return ())) w = (Inr (), w1, t1)"
    by (simp add: writable_enter_def)
  from io_bind_Inr [OF this] obtain ua wa ta tb where
    a: "touch ?b w = (Inr ua, wa, ta)" and
    b: "io_bind (chmod ?b S_IWRITE) (\<lambda>u.
          if \<not> n = ''base'' then
            io_bind (mkdir_parents (butlast ?e)) (\<lambda>d.
            io_bind (touch ?e) (\<lambda>u. chmod ?e S_IWRITE))
          else io_return ()) wa = (Inr (), w1, tb)"
    by blast
  from io_bind_Inr [OF b] obtain ub wb tc td where
    c: "chmod ?b S_IWRITE wa = (Inr ub, wb, tc)" and
    d: "(if \<not> n = ''base'' then
            io_bind (mkdir_parents (butlast ?e)) (\<lambda>d.
            io_bind (touch ?e) (\<lambda>u. chmod ?e S_IWRITE))
          else io_return ()) wb = (Inr (), w1, td)"
    by blast
  have mb: "mode_of wb ?b = Some S_IWRITE" using chmod_Inr [OF c] by simp
  show "mode_of w1 ?b = Some S_IWRITE"
  proof (cases "n = ''base''")
    case True
    then show ?thesis using d mb by (simp add: io_return_def)
  next
    case False
    with d have "io_bind (mkdir_parents (butlast ?e)) (\<lambda>d.
            io_bind (touch ?e) (\<lambda>u. chmod ?e S_IWRITE)) wb = (Inr (), w1, td)"
      by simp
    from io_bind_Inr [OF this] obtain x wc te tf where
      e: "mkdir_parents (butlast ?e) wb = (Inr x, wc, te)" and
      f: "io_bind (touch ?e) (\<lambda>u. chmod ?e S_IWRITE) wc = (Inr (), w1, tf)"
      by blast
    from io_bind_Inr [OF f] obtain ug wd tg th where
      g: "touch ?e wc = (Inr ug, wd, tg)" and
      h: "chmod ?e S_IWRITE wd = (Inr (), w1, th)"
      by blast
    obtain nb where nb: "fs wb ?b = Some nb" "node_mode nb = S_IWRITE"
      using mb by (auto simp: mode_of_def split: option.splits)
    have "fs wc ?b = Some nb" using mkdir_parents_Inr [OF e] nb by simp
    then have "fs wd ?b = Some nb" using touch_Inr [OF g] canary_paths_differ [of prefix n] by metis
    then have "fs w1 ?b = Some nb" using chmod_Inr [OF h] canary_paths_differ [of prefix n] by metis
    then show ?thesis using nb by (simp add: mode_of_def)
  qed
  show "mode_of w1 ?e = Some S_IWRITE" if "n \<noteq> ''base''"
  proof -
    from that d have "io_bind (mkdir_parents (butlast ?e)) (\<lambda>d.
            io_bind (touch ?e) (\<lambda>u. chmod ?e S_IWRITE)) wb = (Inr (), w1, td)"
      by simp
    from io_bind_Inr [OF this] obtain x wc te tf where
      e: "mkdir_parents (butlast ?e) wb = (Inr x, wc, te)" and
      f: "io_bind (touch ?e) (\<lambda>u. chmod ?e S_IWRITE) wc = (Inr (), w1, tf)"
      by blast
    from io_bind_Inr [OF f] obtain ug wd tg th where
      g: "touch ?e wc = (Inr ug, wd, tg)" and
      h: "chmod ?e S_IWRITE wd = (Inr (), w1, th)"
      by blast
    show ?thesis using chmod_Inr [OF h] by simp
  qed
qed


lemma chmod_present:
  assumes "mode_of w p \<noteq> None"
  shows "\<exists>w'. chmod p m w = (Inr (), w', [Chmod p m]) \<and> mode_of w' p = Some m \<and>
              (\<forall>q. q \<noteq> p \<longrightarrow> mode_of w' q = mode_of w q)"
proof -
  from assms obtain n where n: "fs w p = Some n" by (auto simp: mode_of_def split: option.splits)
  then show ?thesis by (cases n) (auto simp: chmod_def mode_of_def)
qed

lemma exit_readonly:
  assumes "mode_of w2 (base_canaryfile prefix) \<noteq> None"
    and "n \<noteq> ''base'' \<Longrightarrow> mode_of w2 (env_canaryfile prefix n) \<noteq> None"
  shows "\<exists>w' t3. writable_exit n True prefix w2 = (Inr (), w', t3) \<and>
           mode_of w' (base_canaryfile prefix) = Some S_IREAD \<and>
           (n \<noteq> ''base'' \<longrightarrow> mode_of w' (env_canaryfile prefix n) = Some S_IREAD)"
proof -
  let ?b = "base_canaryfile prefix" and ?e = "env_canaryfile prefix n"
  from chmod_present [OF assms(1), of S_IREAD] obtain wa where
    a: "chmod ?b S_IREAD w2 = (Inr (), wa, [Chmod ?b S_IREAD])"
       "mode_of wa ?b = Some S_IREAD" "\<forall>q. q \<noteq> ?b \<longrightarrow> mode_of wa q = mode_of w2 q"
    by blast
  show ?thesis
  proof (cases "n = ''base''")
    case True
    then show ?thesis using a by (simp add: writable_exit_def io_bind_def io_return_def)
  next
    case False
    then have "mode_of wa ?e \<noteq> None" using a(3) assms(2) canary_paths_differ [of prefix n] by simp
    from chmod_present [OF this, of S_IREAD] obtain wb where
      b: "chmod ?e S_IREAD wa = (Inr (), wb, [Chmod ?e S_IREAD])"
         "mode_of wb ?e = Some S_IREAD" "\<forall>q. q \<noteq> ?e \<longrightarrow> mode_of wb q = mode_of wa q"
      by blast
    have "mode_of wb ?b = Some S_IREAD" using a(2) b(3) canary_paths_differ [of prefix n] by metis
    then show ?thesis using False a(1) b(1) b(2)
      by (simp add: writable_exit_def io_bind_def)
  qed
qed

lemma exit_not_enforced: "writable_exit n False prefix w2 = (Inr (), w2, [])"
  by (simp add: writable_exit_def io_return_def)

text \<open>
  Claim C1, as amended. Let the guard's entry succeed and let the body, whether it returns
  or raises, keep the canary files (\<open>canary_kept\<close>: they are still there when the body
  ends, and when \<open>enforce_readonly\<close> is false they still have the mode the entry gave
  them). Then the guard ends as the body did, and afterwards the base canary, and the
  canary of the named environment when the name is not \<open>base\<close>, is read-only when
  \<open>enforce_readonly\<close> is true and writable when it is false.
\<close>

theorem writable_restores_canary:
  assumes enter: "writable_enter n prefix w = (Inr (), w1, t1)"
    and body: "body w1 = (r, w2, t2)"
    and kept_base: "canary_kept er w1 w2 (base_canaryfile prefix)"
    and kept_env: "n \<noteq> ''base'' \<Longrightarrow> canary_kept er w1 w2 (env_canaryfile prefix n)"
  shows "\<exists>w' t3. writable n er prefix body w = (r, w', t1 @ t2 @ t3) \<and>
           mode_of w' (base_canaryfile prefix) = Some (if er then S_IREAD else S_IWRITE) \<and>
           (n \<noteq> ''base'' \<longrightarrow>
              mode_of w' (env_canaryfile prefix n) = Some (if er then S_IREAD else S_IWRITE))"
proof -
  let ?b = "base_canaryfile prefix" and ?e = "env_canaryfile prefix n"
  have inner: "io_bind (writable_enter n prefix) (\<lambda>u. body) w = (r, w2, t1 @ t2)"
    using enter body by (simp add: io_bind_def)
  show ?thesis
  proof (cases er)
    case True
    have "mode_of w2 ?b \<noteq> None" using kept_base True by (simp add: canary_kept_def)
    moreover have "n \<noteq> ''base'' \<Longrightarrow> mode_of w2 ?e \<noteq> None"
      using kept_env True by (simp add: canary_kept_def)
    ultimately obtain w' t3 where
      x: "writable_exit n True prefix w2 = (Inr (), w', t3)"
         "mode_of w' ?b = Some S_IREAD"
         "n \<noteq> ''base'' \<longrightarrow> mode_of w' ?e = Some S_IREAD"
      using exit_readonly [of w2 prefix n] by blast
    have "writable n er prefix body w = (r, w', t1 @ t2 @ t3)"
      using inner x(1) True by (simp add: writable_def try_finally_def)
    then show ?thesis using x(2,3) True by auto
  next
    case False
    have "writable n er prefix body w = (r, w2, t1 @ t2 @ [])"
      using inner False by (simp add: writable_def try_finally_def exit_not_enforced)
    moreover have "mode_of w2 ?b = Some S_IWRITE"
      using kept_base False enter_modes(1) [OF enter] by (simp add: canary_kept_def)
    moreover have "n \<noteq> ''base'' \<longrightarrow> mode_of w2 ?e = Some S_IWRITE"
      using kept_env False enter_modes(2) [OF enter] by (simp add: canary_kept_def)
    ultimately show ?thesis using False by auto
  qed
qed

lemma demo_enter_proj:
  "outcome (writable_enter ''proj'' demo_prefix demo_world) = Inr ()"
  by (simp add: writable_enter_def io_bind_def io_return_def touch_def chmod_def
      mkdir_parents_def base_canaryfile_def env_canaryfile_def demo_prefix_def demo_world_def
      outcome_def)

text \<open>
  Claim C1 as stated fails for a body that changes the canary itself: with
  \<open>enforce_readonly\<close> false the \<^verbatim>\<open>finally\<close> block does nothing, so a body that makes
  the base canary read-only leaves it read-only after the guard.
\<close>

theorem writable_base_not_enforced_counterexample:
  "outcome (writable ''base'' False demo_prefix
      (chmod (base_canaryfile demo_prefix) S_IREAD) demo_world) = Inr () \<and>
   mode_of (world_of (writable ''base'' False demo_prefix
      (chmod (base_canaryfile demo_prefix) S_IREAD) demo_world))
     (base_canaryfile demo_prefix) = Some S_IREAD \<and>
   S_IREAD \<noteq> S_IWRITE"
  by (simp add: writable_def try_finally_def writable_enter_def writable_exit_def
      io_bind_def io_return_def touch_def chmod_def
      base_canaryfile_def demo_prefix_def demo_world_def
      outcome_def world_of_def mode_of_def S_IREAD_def S_IWRITE_def)


theorem writable_restores_canary_witness:
  "outcome (writable ''proj'' True demo_prefix (io_raise (Exception ''boom'')) demo_world)
     = Inl (Exception ''boom'') \<and>
   mode_of (world_of (writable ''proj'' True demo_prefix (io_raise (Exception ''boom'')) demo_world))
     (base_canaryfile demo_prefix) = Some S_IREAD \<and>
   mode_of (world_of (writable ''proj'' True demo_prefix (io_raise (Exception ''boom'')) demo_world))
     (env_canaryfile demo_prefix ''proj'') = Some S_IREAD \<and>
   outcome (writable ''proj'' False demo_prefix (io_return ()) demo_world) = Inr () \<and>
   mode_of (world_of (writable ''proj'' False demo_prefix (io_return ()) demo_world))
     (base_canaryfile demo_prefix) = Some S_IWRITE \<and>
   mode_of (world_of (writable ''proj'' False demo_prefix (io_return ()) demo_world))
     (env_canaryfile demo_prefix ''proj'') = Some S_IWRITE"
proof -
  let ?b = "base_canaryfile demo_prefix" and ?e = "env_canaryfile demo_prefix ''proj''"
  obtain w1 t1 where e: "writable_enter ''proj'' demo_prefix demo_world = (Inr (), w1, t1)"
    using demo_enter_proj
    by (cases "writable_enter ''proj'' demo_prefix demo_world") (auto simp: outcome_def)
  have m: "mode_of w1 ?b = Some S_IWRITE" "mode_of w1 ?e = Some S_IWRITE"
    using enter_modes [OF e] by simp_all
  have raising: "io_raise (Exception ''boom'') w1 = (Inl (Exception ''boom''), w1, [])"
    by (simp add: io_raise_def)
  have returning: "io_return () w1 = (Inr (), w1, [])"
    by (simp add: io_return_def)
  have k: "canary_kept True w1 w1 ?b" "canary_kept True w1 w1 ?e"
    "canary_kept False w1 w1 ?b" "canary_kept False w1 w1 ?e"
    using m by (simp_all add: canary_kept_def)
  from writable_restores_canary
         [where body = "io_raise (Exception ''boom'')" and er = True, OF e raising k(1) k(2)]
       writable_restores_canary
         [where body = "io_return ()" and er = False, OF e returning k(3) k(4)]
  show ?thesis by (auto simp: outcome_def world_of_def)
qed

lemma writable_events_split:
  "events (writable n er prefix body w) =
     events (writable_enter n prefix w)
     @ (case outcome (writable_enter n prefix w) of
          Inl e \<Rightarrow> []
        | Inr u \<Rightarrow> events (body (world_of (writable_enter n prefix w))))
     @ events (writable_exit n er prefix
         (world_of (io_bind (writable_enter n prefix) (\<lambda>u. body) w)))"
  by (simp add: writable_def try_finally_def io_bind_def events_def outcome_def world_of_def
      split: prod.splits sum.splits)

lemma enter_base_events:
  "set (events (writable_enter ''base'' prefix w))
     \<subseteq> {Touch (base_canaryfile prefix), Chmod (base_canaryfile prefix) S_IWRITE}"
  by (auto simp: writable_enter_def io_bind_def io_return_def touch_def chmod_def events_def
      split: option.splits node.splits prod.splits sum.splits)

lemma exit_base_events:
  "set (events (writable_exit ''base'' er prefix w)) \<subseteq> {Chmod (base_canaryfile prefix) S_IREAD}"
  by (auto simp: writable_exit_def io_bind_def io_return_def chmod_def events_def
      split: option.splits node.splits prod.splits sum.splits)

lemma enter_base_frame:
  "p \<noteq> base_canaryfile prefix \<Longrightarrow> fs (world_of (writable_enter ''base'' prefix w)) p = fs w p"
  by (auto simp: writable_enter_def io_bind_def io_return_def touch_def chmod_def world_of_def
      split: option.splits node.splits prod.splits sum.splits)

lemma exit_base_frame:
  "p \<noteq> base_canaryfile prefix \<Longrightarrow> fs (world_of (writable_exit ''base'' er prefix w)) p = fs w p"
  by (auto simp: writable_exit_def io_bind_def io_return_def chmod_def world_of_def
      split: option.splits node.splits prod.splits sum.splits)

text \<open>
  Claim C7. With the name \<open>base\<close> the events of the guard are those of its entry, then
  those of the body, then those of its exit; entry and exit make calls on the base canary
  only, leave every other path of the file system as it was, and no canary path of a named
  environment is the base canary path.
\<close>

theorem writable_base_only_base_canary:
  "events (writable ''base'' er prefix body w) =
     events (writable_enter ''base'' prefix w)
     @ (case outcome (writable_enter ''base'' prefix w) of
          Inl e \<Rightarrow> []
        | Inr u \<Rightarrow> events (body (world_of (writable_enter ''base'' prefix w))))
     @ events (writable_exit ''base'' er prefix
         (world_of (io_bind (writable_enter ''base'' prefix) (\<lambda>u. body) w)))
   \<and> (\<forall>w0. set (events (writable_enter ''base'' prefix w0))
          \<subseteq> {Touch (base_canaryfile prefix), Chmod (base_canaryfile prefix) S_IWRITE})
   \<and> (\<forall>w0. set (events (writable_exit ''base'' er prefix w0))
          \<subseteq> {Chmod (base_canaryfile prefix) S_IREAD})
   \<and> (\<forall>w0 p. p \<noteq> base_canaryfile prefix \<longrightarrow>
          fs (world_of (writable_enter ''base'' prefix w0)) p = fs w0 p \<and>
          fs (world_of (writable_exit ''base'' er prefix w0)) p = fs w0 p)
   \<and> (\<forall>n. env_canaryfile prefix n \<noteq> base_canaryfile prefix)"
  using writable_events_split [of "''base''" er prefix body w]
    enter_base_events [of prefix] exit_base_events [of er prefix]
    enter_base_frame [of _ prefix] exit_base_frame [of _ prefix er]
    canary_paths_differ [of prefix]
  by blast

theorem writable_base_only_base_canary_witness:
  "events (writable ''base'' True demo_prefix (io_return ()) demo_world) =
     [Touch (base_canaryfile demo_prefix),
      Chmod (base_canaryfile demo_prefix) S_IWRITE,
      Chmod (base_canaryfile demo_prefix) S_IREAD] \<and>
   fs (world_of (writable_enter ''base'' demo_prefix demo_world))
      (env_canaryfile demo_prefix ''base'') = None \<and>
   fs demo_world (env_canaryfile demo_prefix ''base'') = None"
  using writable_base_only_base_canary [of True demo_prefix "io_return ()" demo_world]
  by (simp add: writable_def try_finally_def writable_enter_def writable_exit_def
      io_bind_def io_return_def touch_def chmod_def
      base_canaryfile_def env_canaryfile_def demo_prefix_def demo_world_def
      events_def world_of_def outcome_def)



section \<open>Properties of manifest sync\<close>

lemma run_cmds_append: "run_cmds (t1 @ t2) = run_cmds t1 @ run_cmds t2"
  by (induction t1 rule: run_cmds.induct) simp_all

lemma touch_events: "events (touch p w) = [Touch p]"
  by (simp add: touch_def events_def split: option.splits node.splits)

lemma chmod_events: "events (chmod p m w) = [Chmod p m]"
  by (simp add: chmod_def events_def split: option.splits)

lemma mkdir_parents_events: "events (mkdir_parents p w) = [Mkdir p]"
  by (simp add: mkdir_parents_def events_def split: sum.splits)

lemma events_bind:
  "events (io_bind m f w) =
     events (m w) @ (case outcome (m w) of Inl e \<Rightarrow> [] | Inr x \<Rightarrow> events (f x (world_of (m w))))"
  by (simp add: io_bind_def events_def outcome_def world_of_def split: prod.splits sum.splits)

lemma return_events: "events (io_return x w) = []"
  by (simp add: io_return_def events_def)

lemma enter_no_run: "run_cmds (events (writable_enter n prefix w)) = []"
  by (simp add: writable_enter_def events_bind touch_events chmod_events mkdir_parents_events
      return_events run_cmds_append split: sum.splits)

lemma exit_no_run: "run_cmds (events (writable_exit n er prefix w)) = []"
  by (simp add: writable_exit_def events_bind chmod_events return_events run_cmds_append
      split: sum.splits)

lemma subprocess_run_events: "events (subprocess_run conda cmd w) = [Run cmd]"
  by (simp add: subprocess_run_def events_def split: prod.splits)

lemma subprocess_run_world: "world_of (subprocess_run conda cmd w) = snd (conda cmd w)"
  by (simp add: subprocess_run_def world_of_def split: prod.splits)

lemma update_or_create_events:
  "events (update_or_create conda n env_path w) =
     (case env_path of
        Some p \<Rightarrow> [Run ''conda env update --file environment.yml --prune'']
      | None \<Rightarrow> [Print (''Environment '' @ n @ '' doesn't exist, so create it...''),
                 Run ''conda env create --file environment.yml''])"
  by (simp add: update_or_create_def events_bind subprocess_run_events py_print_def
      events_def [of "(Inr (), w, [Print _])"] outcome_def world_of_def
      split: option.splits)


lemma update_from_yml_loaded:
  assumes "fs w yml_file = Some (File m content)" and "yaml_load content = Inr y"
    and "name y = Some n"
  shows "update_from_yml yaml_load conda yml_file er prefix w =
     (case conda_info w of
        Inl e \<Rightarrow>
          (Inl e, w, [OpenRead yml_file, Print (found_message w n yml_file),
                      Run ''conda info --json''])
      | Inr ps \<Rightarrow>
          (case writable n er prefix (update_or_create conda n (find_env_loop n ps)) w of
             (r, w', t) \<Rightarrow>
               (r, w', [OpenRead yml_file, Print (found_message w n yml_file),
                        Run ''conda info --json''] @ t)))"
  using assms
  by (simp add: update_from_yml_def io_bind_def read_text_def io_lift_def getitem_name_def
      py_print_def find_env_def split: sum.splits prod.splits)

text \<open>
  Claim C8. When the manifest can be read and has a name, the first thing the sync does
  after opening the manifest is to print the message that names the environment and the
  resolved manifest path; nothing that changes state (no touch, chmod, mkdir, write or
  subprocess) comes before it.
\<close>

theorem update_from_yml_prints_first:
  assumes "fs w yml_file = Some (File m content)" and "yaml_load content = Inr y"
    and "name y = Some n"
  shows "\<exists>pre rest.
           events (update_from_yml yaml_load conda yml_file er prefix w) =
             pre @ Print (''Found environment file for '' @ n @ '' at ''
                          @ path_str (resolve w yml_file)) # rest \<and>
           (\<forall>e\<in>set pre. \<not> mutating e) \<and>
           pre = [OpenRead yml_file]"
proof -
  let ?msg = "Print (''Found environment file for '' @ n @ '' at '' @ path_str (resolve w yml_file))"
  have "\<exists>rest. events (update_from_yml yaml_load conda yml_file er prefix w) =
          [OpenRead yml_file] @ ?msg # rest"
    by (simp add: update_from_yml_loaded [where yaml_load = yaml_load, OF assms] events_def found_message_def
        split: sum.splits prod.splits)
  then show ?thesis by auto
qed


lemmas demo_eval =
  update_from_yml_def update_or_create_def writable_def try_finally_def writable_enter_def
  writable_exit_def io_bind_def io_return_def io_lift_def io_raise_def read_text_def
  getitem_name_def py_print_def find_env_def subprocess_run_def touch_def chmod_def
  mkdir_parents_def base_canaryfile_def env_canaryfile_def found_message_def path_str_def
  resolve_def demo_prefix_def demo_world_def demo_yaml_load_def demo_conda_def
  outcome_def world_of_def events_def mode_of_def S_IREAD_def S_IWRITE_def new_file_mode_def
  new_dir_mode_def

theorem update_from_yml_prints_first_witness:
  "take 2 (events (update_from_yml demo_yaml_load demo_conda [''environment.yml''] True
                     demo_prefix demo_world)) =
     [OpenRead [''environment.yml''],
      Print ''Found environment file for proj at /home/work/environment.yml'']"
  using update_from_yml_prints_first
    [where w = demo_world and yml_file = "[''environment.yml'']" and m = 420
       and content = "''{name: proj, dependencies: [numpy]}''" and yaml_load = demo_yaml_load
       and y = "\<lparr>name = Some ''proj'', dependencies = Some [''numpy'']\<rparr>" and n = "''proj''"
       and conda = demo_conda and er = True and prefix = demo_prefix]
  by (simp add: demo_eval)





lemma update_from_yml_missing_name:
  assumes "fs w yml_file = Some (File m content)" and "yaml_load content = Inr y"
    and "name y = None"
  shows "update_from_yml yaml_load conda yml_file er prefix w = (Inl KeyError, w, [OpenRead yml_file])"
  using assms
  by (simp add: update_from_yml_def io_bind_def read_text_def io_lift_def getitem_name_def)

lemma update_from_yml_unreadable:
  assumes "\<nexists>m content y. fs w yml_file = Some (File m content) \<and> yaml_load content = Inr y"
  shows "events (update_from_yml yaml_load conda yml_file er prefix w) = [OpenRead yml_file]"
proof (cases "fs w yml_file")
  case None
  then show ?thesis
    by (simp add: update_from_yml_def io_bind_def read_text_def events_def)
next
  case (Some nd)
  show ?thesis
  proof (cases nd)
    case (Dir m)
    then show ?thesis using Some
      by (simp add: update_from_yml_def io_bind_def read_text_def events_def)
  next
    case (File m content)
    then obtain e where "yaml_load content = Inl e" using assms Some by (cases "yaml_load content") auto
    then show ?thesis using Some File
      by (simp add: update_from_yml_def io_bind_def read_text_def io_lift_def events_def)
  qed
qed

lemma update_from_yml_run_cmds:
  "run_cmds (events (update_from_yml yaml_load conda yml_file er prefix w))
     \<in> {[], [''conda info --json''],
         [''conda info --json'', ''conda env update --file environment.yml --prune''],
         [''conda info --json'', ''conda env create --file environment.yml'']}"
proof (cases "\<exists>m content y. fs w yml_file = Some (File m content) \<and> yaml_load content = Inr y")
  case False
  then show ?thesis by (simp add: update_from_yml_unreadable)
next
  case True
  then obtain m content y where
    f: "fs w yml_file = Some (File m content)" and l: "yaml_load content = Inr y" by blast
  show ?thesis
  proof (cases "name y")
    case None
    then show ?thesis
      by (simp add: update_from_yml_missing_name [where yaml_load = yaml_load, OF f l] events_def)
  next
    case (Some n)
    note loaded = update_from_yml_loaded [where yaml_load = yaml_load, OF f l Some]
    show ?thesis
    proof (cases "conda_info w")
      case (Inl e)
      then show ?thesis by (simp add: loaded events_def)
    next
      case (Inr ps)
      let ?body = "update_or_create conda n (find_env_loop n ps)"
      have "events (update_from_yml yaml_load conda yml_file er prefix w) =
              [OpenRead yml_file, Print (found_message w n yml_file), Run ''conda info --json'']
              @ events (writable n er prefix ?body w)"
        using Inr by (simp add: loaded events_def split: prod.splits)
      then have "run_cmds (events (update_from_yml yaml_load conda yml_file er prefix w)) =
              ''conda info --json'' #
                (case outcome (writable_enter n prefix w) of
                   Inl e \<Rightarrow> []
                 | Inr u \<Rightarrow> run_cmds (events (?body (world_of (writable_enter n prefix w)))))"
        by (simp add: writable_events_split run_cmds_append enter_no_run exit_no_run
            split: sum.splits)
      then show ?thesis
        by (simp add: update_or_create_events split: sum.splits option.splits)
    qed
  qed
qed

text \<open>
  Claim C9. Whatever \<open>yml_file\<close> is, the command lines run by the sync are the locator
  query alone, or the query followed by one of two fixed commands, both of which name the
  literal file \<^verbatim>\<open>environment.yml\<close>. In the concrete installation the manifest read is
  \<^verbatim>\<open>dev.yml\<close> while the command names \<^verbatim>\<open>environment.yml\<close>.
\<close>

theorem update_from_yml_command_lines:
  "run_cmds (events (update_from_yml yaml_load conda yml_file er prefix w))
     \<in> {[], [''conda info --json''],
         [''conda info --json'', ''conda env update --file environment.yml --prune''],
         [''conda info --json'', ''conda env create --file environment.yml'']}
   \<and> hd (events (update_from_yml demo_yaml_load demo_conda [''dev.yml''] True demo_prefix
                    demo_world)) = OpenRead [''dev.yml'']
   \<and> run_cmds (events (update_from_yml demo_yaml_load demo_conda [''dev.yml''] True demo_prefix
                          demo_world)) =
       [''conda info --json'', ''conda env create --file environment.yml'']"
proof -
  have "hd (events (update_from_yml demo_yaml_load demo_conda [''dev.yml''] True demo_prefix
                    demo_world)) = OpenRead [''dev.yml'']"
    by (simp add: demo_eval)
  moreover have "run_cmds (events (update_from_yml demo_yaml_load demo_conda [''dev.yml''] True
                          demo_prefix demo_world)) =
       [''conda info --json'', ''conda env create --file environment.yml'']"
    by (simp add: demo_eval)
  ultimately show ?thesis using update_from_yml_run_cmds by blast
qed

text \<open>
  Claim C2 at a manifest with a name and an empty dependency list: the sync does not reject
  it. It makes both canaries writable, creates the environment directory and runs
  \<^verbatim>\<open>conda env create\<close>. (A manifest without a name is rejected with \<open>KeyError\<close>
  after the manifest was opened and before anything else: \<open>update_from_yml_missing_name\<close>.)
\<close>

theorem update_from_yml_accepts_empty_dependencies:
  "demo_yaml_load ''{name: proj, dependencies: []}''
     = Inr \<lparr>name = Some ''proj'', dependencies = Some []\<rparr> \<and>
   outcome (update_from_yml demo_yaml_load demo_conda [''empty.yml''] True demo_prefix demo_world)
     = Inr () \<and>
   events (update_from_yml demo_yaml_load demo_conda [''empty.yml''] True demo_prefix demo_world)
     = [OpenRead [''empty.yml''],
        Print ''Found environment file for proj at /home/work/empty.yml'',
        Run ''conda info --json'',
        Touch (base_canaryfile demo_prefix),
        Chmod (base_canaryfile demo_prefix) S_IWRITE,
        Mkdir (butlast (env_canaryfile demo_prefix ''proj'')),
        Touch (env_canaryfile demo_prefix ''proj''),
        Chmod (env_canaryfile demo_prefix ''proj'') S_IWRITE,
        Print ''Environment proj doesn't exist, so create it...'',
        Run ''conda env create --file environment.yml'',
        Chmod (base_canaryfile demo_prefix) S_IREAD,
        Chmod (env_canaryfile demo_prefix ''proj'') S_IREAD]"
  by (simp add: demo_eval)

section \<open>Properties of the script generator\<close>

lemma set_env_vars_always_raises:
  "events (set_env_vars env_vars env_path w) = [Mkdir (env_path @ [''etc'', ''conda'', ''activate.d''])]
   \<and> (\<exists>e. outcome (set_env_vars env_vars env_path w) = Inl e)"
  by (simp add: set_env_vars_def io_bind_def io_lift_def py_truediv_def mkdir_parents_def
      events_def outcome_def split: prod.splits sum.splits)

lemma set_env_vars_buffers:
  "set_env_vars_loop [(''FOO'', ''bar'')]
     ([''#!/bin/sh'' @ [CHR 0x0A]], [''''], [''#!/bin/sh'' @ [CHR 0x0A]], ['''']) =
     (activate_sh, activate_bat, deactivate_sh, deactivate_bat) \<Longrightarrow>
   concat activate_sh = ''#!/bin/sh'' @ [CHR 0x0A] @ ''export FOO=bar'' @ [CHR 0x0A] \<and>
   concat deactivate_sh = ''#!/bin/sh'' @ [CHR 0x0A] @ ''unset FOO'' @ [CHR 0x0A] \<and>
   concat activate_bat = ''set FOO=bar'' @ [CHR 0x0A] \<and>
   concat deactivate_bat = ''set FOO='' @ [CHR 0x0A]"
  by (auto simp: list_iadd_str_def)

text \<open>
  Claim C5 at the mapping \<open>FOO \<mapsto> bar\<close>: \<open>set_env_vars\<close> creates the directory
  \<^verbatim>\<open>activate.d\<close>, keeps the \<open>None\<close> that \<open>mkdir\<close> returned as \<open>activate_dir\<close> and
  raises \<open>TypeError\<close> at \<^verbatim>\<open>activate_dir / "env_vars.sh"\<close>. No script is written.
\<close>

theorem set_env_vars_raises_type_error:
  "outcome (set_env_vars [(''FOO'', ''bar'')] demo_prefix demo_world) = Inl TypeError \<and>
   events (set_env_vars [(''FOO'', ''bar'')] demo_prefix demo_world) =
     [Mkdir (demo_prefix @ [''etc'', ''conda'', ''activate.d''])] \<and>
   fs (world_of (set_env_vars [(''FOO'', ''bar'')] demo_prefix demo_world))
      (demo_prefix @ [''etc'', ''conda'', ''activate.d'', ''env_vars.sh'']) = None \<and>
   fs (world_of (set_env_vars [(''FOO'', ''bar'')] demo_prefix demo_world))
      (demo_prefix @ [''etc'', ''conda'', ''deactivate.d'', ''env_vars.sh'']) = None"
  by (simp add: set_env_vars_def io_bind_def io_lift_def py_truediv_def mkdir_parents_def
      list_iadd_str_def demo_prefix_def demo_world_def new_dir_mode_def
      events_def outcome_def world_of_def)

section \<open>Running the sync twice\<close>




lemma set_mode_Dir: "nd = Dir m0 \<Longrightarrow> set_mode m nd = Dir m"
  by simp










lemma outcome_bind:
  "outcome (io_bind m f w) =
     (case outcome (m w) of Inl e \<Rightarrow> Inl e | Inr x \<Rightarrow> outcome (f x (world_of (m w))))"
  by (simp add: io_bind_def outcome_def world_of_def split: prod.splits sum.splits)












end
